theory Spec2Isabelle
  imports Complex_Main
begin

section \<open>Floating-point values as the strategy sees them\<close>

text \<open>
  The program computes with Python and numpy floats. The embedding keeps the values that
  decide the control flow of \<^verbatim>\<open>main.py\<close>: a float is a finite number, an infinity or
  not-a-number. Finite arithmetic is done on the reals (rounding and signed zeros are not
  modelled); what the source does outside the finite numbers (a comparison with
  not-a-number, a division by zero, \<^verbatim>\<open>int()\<close> of a value that is not finite) is written
  out.
\<close>

datatype fl = Fin real | PInf | NInf | NaN

text \<open>\<^verbatim>\<open>x > b\<close> and \<^verbatim>\<open>x < b\<close> for a float \<open>x\<close> and a finite bound \<open>b\<close>: every
  comparison with not-a-number is false.\<close>

fun fl_gt :: "fl \<Rightarrow> real \<Rightarrow> bool" where
  "fl_gt (Fin x) b = (b < x)"
| "fl_gt PInf b = True"
| "fl_gt NInf b = False"
| "fl_gt NaN b = False"

fun fl_lt :: "fl \<Rightarrow> real \<Rightarrow> bool" where
  "fl_lt (Fin x) b = (x < b)"
| "fl_lt PInf b = False"
| "fl_lt NInf b = True"
| "fl_lt NaN b = False"

text \<open>\<^verbatim>\<open>a / b\<close> where \<open>b\<close> is a numpy float (an element of \<^verbatim>\<open>self.data.Close\<close>): a
  division by zero raises nothing and gives an infinity, or not-a-number for \<open>0 / 0\<close>.\<close>

definition truediv :: "real \<Rightarrow> real \<Rightarrow> fl" where
  "truediv a b =
     (if b \<noteq> 0 then Fin (a / b)
      else if a = 0 then NaN
      else if 0 < a then PInf else NInf)"

text \<open>A finite numerator divided by a float, a float subtracted from a finite number and
  a finite number added to a float.\<close>

fun truediv_fl :: "real \<Rightarrow> fl \<Rightarrow> fl" where
  "truediv_fl a (Fin b) = truediv a b"
| "truediv_fl a PInf = Fin 0"
| "truediv_fl a NInf = Fin 0"
| "truediv_fl a NaN = NaN"

fun sub_fl :: "real \<Rightarrow> fl \<Rightarrow> fl" where
  "sub_fl a (Fin d) = Fin (a - d)"
| "sub_fl a PInf = NInf"
| "sub_fl a NInf = PInf"
| "sub_fl a NaN = NaN"

fun add_fl :: "fl \<Rightarrow> real \<Rightarrow> fl" where
  "add_fl (Fin d) a = Fin (d + a)"
| "add_fl PInf a = PInf"
| "add_fl NInf a = NInf"
| "add_fl NaN a = NaN"

datatype error = ValueError | OverflowError | ZeroDivisionError | TypeError | AssertionError

text \<open>Python's \<^verbatim>\<open>int(x)\<close> on a float truncates toward zero; it raises
  \<^verbatim>\<open>OverflowError\<close> on an infinity and \<^verbatim>\<open>ValueError\<close> on not-a-number.\<close>

fun py_int :: "fl \<Rightarrow> error + int" where
  "py_int (Fin x) = Inr (if 0 \<le> x then \<lfloor>x\<rfloor> else \<lceil>x\<rceil>)"
| "py_int PInf = Inl OverflowError"
| "py_int NInf = Inl OverflowError"
| "py_int NaN = Inl ValueError"

text \<open>
  An element of the indicator array \<^verbatim>\<open>self.rsi\<close>: a float, or \<^verbatim>\<open>None\<close> (the column
  \<^verbatim>\<open>self.data['RSI'] = None\<close> that line 74 stores when the indicator function returns no
  series). Comparing \<^verbatim>\<open>None\<close> with a number raises \<^verbatim>\<open>TypeError\<close>.
\<close>

datatype sample = Num fl | PyNone

fun sample_gt :: "sample \<Rightarrow> real \<Rightarrow> error + bool" where
  "sample_gt (Num x) b = Inr (fl_gt x b)"
| "sample_gt PyNone b = Inl TypeError"

fun sample_lt :: "sample \<Rightarrow> real \<Rightarrow> error + bool" where
  "sample_lt (Num x) b = Inr (fl_lt x b)"
| "sample_lt PyNone b = Inl TypeError"

text \<open>Python's \<^verbatim>\<open>a and b\<close>: \<open>b\<close> is evaluated only when \<open>a\<close> is true, so an
  exception of \<open>b\<close> is raised only then.\<close>

fun py_and :: "error + bool \<Rightarrow> error + bool \<Rightarrow> error + bool" where
  "py_and (Inl e) r = Inl e"
| "py_and (Inr False) r = Inr False"
| "py_and (Inr True) r = r"

section \<open>The strategy: \<^verbatim>\<open>RSIStrategy\<close>\<close>

text \<open>The class attributes of \<^verbatim>\<open>RSIStrategy\<close>, which \<^verbatim>\<open>run_backtest\<close> assigns
  before each run.\<close>

record strategy_params =
  upper_bound :: real
  lower_bound :: real
  risk :: real
  leverage :: real

text \<open>What \<^verbatim>\<open>next\<close> reads of the engine's position object: the two properties
  \<^verbatim>\<open>is_long\<close> and \<^verbatim>\<open>is_short\<close>.\<close>

record position =
  is_long :: bool
  is_short :: bool

text \<open>What \<^verbatim>\<open>next\<close> hands to the engine: \<^verbatim>\<open>self.position.close()\<close>,
  \<^verbatim>\<open>self.buy(size=, sl=)\<close> and \<^verbatim>\<open>self.sell(size=, sl=)\<close>, in the order of the
  calls.\<close>

datatype order = Close | Buy int fl | Sell int fl

text \<open>Lines 121 to 126 of \<^verbatim>\<open>next\<close>: the position size, before \<^verbatim>\<open>int()\<close>, and the
  two stop prices. All three are computed at every call, from the size that is not yet
  truncated.\<close>

definition position_size :: "strategy_params \<Rightarrow> real \<Rightarrow> real \<Rightarrow> fl" where
  "position_size ps equity close_price =
     (let capital_with_leverage = equity * leverage ps
      in truediv capital_with_leverage close_price)"

definition stop_loss_long :: "strategy_params \<Rightarrow> real \<Rightarrow> real \<Rightarrow> fl" where
  "stop_loss_long ps equity close_price =
     sub_fl close_price
       (truediv_fl (equity * (risk ps / 100)) (position_size ps equity close_price))"

definition stop_loss_short :: "strategy_params \<Rightarrow> real \<Rightarrow> real \<Rightarrow> fl" where
  "stop_loss_short ps equity close_price =
     add_fl (truediv_fl (equity * (risk ps / 100)) (position_size ps equity close_price))
       close_price"

text \<open>
  The calls \<^verbatim>\<open>self.buy(size=int(position_size), sl=stop_loss_long)\<close> (line 137) and
  \<^verbatim>\<open>self.sell(size=int(position_size), sl=stop_loss_short)\<close> (line 141). The argument
  \<^verbatim>\<open>int(position_size)\<close> is evaluated first and may raise. \<^verbatim>\<open>buy\<close> and \<^verbatim>\<open>sell\<close>
  are methods of the imported \<^verbatim>\<open>backtesting\<close> library, whose code is not part of the
  repository; they enter as the parameter \<open>chk\<close>, which says what the call raises for an
  order, if anything. When the call returns, the order is placed with the engine.
\<close>

definition place_order ::
  "(order \<Rightarrow> error option) \<Rightarrow> (int \<Rightarrow> fl \<Rightarrow> order) \<Rightarrow> fl \<Rightarrow> fl \<Rightarrow> error + order" where
  "place_order chk side psize sl =
     (case py_int psize of
        Inl e \<Rightarrow> Inl e
      | Inr n \<Rightarrow> (case chk (side n sl) of Some e \<Rightarrow> Inl e | None \<Rightarrow> Inr (side n sl)))"

definition buy_call :: "(order \<Rightarrow> error option) \<Rightarrow> strategy_params \<Rightarrow> real \<Rightarrow> real \<Rightarrow> error + order" where
  "buy_call chk ps equity close_price =
     place_order chk Buy (position_size ps equity close_price)
       (stop_loss_long ps equity close_price)"

definition sell_call :: "(order \<Rightarrow> error option) \<Rightarrow> strategy_params \<Rightarrow> real \<Rightarrow> real \<Rightarrow> error + order" where
  "sell_call chk ps equity close_price =
     place_order chk Sell (position_size ps equity close_price)
       (stop_loss_short ps equity close_price)"

text \<open>
  The check of the size that the \<^verbatim>\<open>backtesting\<close> library documents for \<^verbatim>\<open>buy\<close> and
  \<^verbatim>\<open>sell\<close>: the size is a positive fraction of the equity or a positive whole number of
  units, asserted when the method is entered. \<^verbatim>\<open>next\<close> passes whole numbers, so a size
  below 1 raises \<^verbatim>\<open>AssertionError\<close>. It is used for the concrete runs below; the general
  theorems hold for every \<open>chk\<close>.
\<close>

fun backtesting_size_assertion :: "order \<Rightarrow> error option" where
  "backtesting_size_assertion Close = None"
| "backtesting_size_assertion (Buy n sl) = (if 1 \<le> n then None else Some AssertionError)"
| "backtesting_size_assertion (Sell n sl) = (if 1 \<le> n then None else Some AssertionError)"

text \<open>
  \<^verbatim>\<open>RSIStrategy.next\<close> (lines 117 to 141). The arguments are the engine's \<open>chk\<close> and
  what the method reads: the class attributes, the position, \<^verbatim>\<open>self.equity\<close>,
  \<^verbatim>\<open>self.data.Close[-1]\<close>, \<^verbatim>\<open>self.rsi[-1]\<close> and \<^verbatim>\<open>self.rsi[-2]\<close>. The result is the
  list of the orders placed, or the exception raised by a comparison, by
  \<^verbatim>\<open>int(position_size)\<close> or by the call of \<^verbatim>\<open>buy\<close> or \<^verbatim>\<open>sell\<close> (the run ends there,
  whatever was placed before). The four conditions are evaluated as Python does, left to
  right and only as far as needed. The two \<^verbatim>\<open>close()\<close> calls come first, then the
  \<^verbatim>\<open>if\<close>/\<^verbatim>\<open>elif\<close> that opens. All four tests read the position as it is when the
  method starts: \<^verbatim>\<open>close()\<close>, \<^verbatim>\<open>buy\<close> and \<^verbatim>\<open>sell\<close> place orders with the engine.
\<close>

definition RSIStrategy_next ::
  "(order \<Rightarrow> error option) \<Rightarrow> strategy_params \<Rightarrow> position \<Rightarrow> real \<Rightarrow> real \<Rightarrow>
     sample \<Rightarrow> sample \<Rightarrow> error + order list" where
  "RSIStrategy_next chk ps pos equity close_price rsi_t rsi_t_minus_1 =
     (case py_and (Inr (is_long pos))
             (py_and (sample_gt rsi_t_minus_1 (upper_bound ps)) (sample_lt rsi_t (upper_bound ps))) of
        Inl e \<Rightarrow> Inl e
      | Inr close_long \<Rightarrow>
     (case py_and (Inr (is_short pos))
             (py_and (sample_lt rsi_t_minus_1 (lower_bound ps)) (sample_gt rsi_t (lower_bound ps))) of
        Inl e \<Rightarrow> Inl e
      | Inr close_short \<Rightarrow>
     (let closes = (if close_long then [Close] else []) @ (if close_short then [Close] else [])
      in
     (case py_and (sample_lt rsi_t_minus_1 (lower_bound ps)) (sample_gt rsi_t (lower_bound ps)) of
        Inl e \<Rightarrow> Inl e
      | Inr crossed_up \<Rightarrow>
          if crossed_up then
            (if \<not> is_long pos then
               (case buy_call chk ps equity close_price of
                  Inl e \<Rightarrow> Inl e
                | Inr b \<Rightarrow> Inr (closes @ [b]))
             else Inr closes)
          else
            (case py_and (sample_gt rsi_t_minus_1 (upper_bound ps))
                    (sample_lt rsi_t (upper_bound ps)) of
               Inl e \<Rightarrow> Inl e
             | Inr crossed_down \<Rightarrow>
                 if crossed_down then
                   (if \<not> is_short pos then
                      (case sell_call chk ps equity close_price of
                         Inl e \<Rightarrow> Inl e
                       | Inr b \<Rightarrow> Inr (closes @ [b]))
                    else Inr closes)
                 else Inr closes)))))"

section \<open>The signal state machine, as an observer sees it\<close>

text \<open>The state of the signal state machine is the direction of the open position;
  \<open>None\<close> is Flat. \<open>position_view\<close> is what \<^verbatim>\<open>next\<close> reads in that state.\<close>

datatype direction = Long | Short

definition position_view :: "direction option \<Rightarrow> position" where
  "position_view st = \<lparr>is_long = (st = Some Long), is_short = (st = Some Short)\<rparr>"

datatype action = ClosePosition | OpenLong | OpenShort

fun action_of :: "order \<Rightarrow> action" where
  "action_of Close = ClosePosition"
| "action_of (Buy n sl) = OpenLong"
| "action_of (Sell n sl) = OpenShort"

text \<open>One step of the code: the actions \<^verbatim>\<open>next\<close> takes in state \<open>st\<close>, in the
  order of the calls. Whether the engine later fills an order that was placed, and so the
  state after the step, is the engine's matter and not part of this.\<close>

definition step_actions ::
  "(order \<Rightarrow> error option) \<Rightarrow> strategy_params \<Rightarrow> direction option \<Rightarrow> real \<Rightarrow> real \<Rightarrow>
     sample \<Rightarrow> sample \<Rightarrow> error + action list" where
  "step_actions chk ps st equity close_price rsi_t rsi_t_minus_1 =
     (case RSIStrategy_next chk ps (position_view st) equity close_price rsi_t rsi_t_minus_1 of
        Inl e \<Rightarrow> Inl e
      | Inr os \<Rightarrow> Inr (map action_of os))"

text \<open>The actions of a step whose last call is an open: they are taken when the call
  returns; otherwise the step raises what the call raised.\<close>

definition if_placed :: "error + order \<Rightarrow> action list \<Rightarrow> error + action list" where
  "if_placed call acts = (case call of Inl e \<Rightarrow> Inl e | Inr b \<Rightarrow> Inr acts)"

text \<open>The transition rules in the words of the specification (section 4.2): five rules,
  checked in this order, the first match wins. This definition follows the specification,
  not the code; its actions are what \<open>step_actions\<close> is compared with.\<close>

definition spec_transition ::
  "real \<Rightarrow> real \<Rightarrow> direction option \<Rightarrow> real \<Rightarrow> real \<Rightarrow> action list \<times> direction option" where
  "spec_transition lb ub st v_prev v_now =
     (if st = Some Long \<and> ub < v_prev \<and> v_now < ub then ([ClosePosition], None)
      else if st = Some Short \<and> v_prev < lb \<and> lb < v_now then ([ClosePosition], None)
      else if v_prev < lb \<and> lb < v_now \<and> st \<noteq> Some Long then
        ((if st = Some Short then [ClosePosition] else []) @ [OpenLong], Some Long)
      else if ub < v_prev \<and> v_now < ub \<and> st \<noteq> Some Short then
        ((if st = Some Long then [ClosePosition] else []) @ [OpenShort], Some Short)
      else ([], st))"

section \<open>Sizes and stops of the orders placed\<close>

text \<open>Whether a call of \<^verbatim>\<open>next\<close> reaches \<^verbatim>\<open>self.buy\<close> or \<^verbatim>\<open>self.sell\<close>: the
  \<^verbatim>\<open>if\<close>/\<^verbatim>\<open>elif\<close> of lines 135 to 141.\<close>

definition opens :: "strategy_params \<Rightarrow> position \<Rightarrow> fl \<Rightarrow> fl \<Rightarrow> bool" where
  "opens ps pos rsi_t rsi_t_minus_1 =
     (if fl_lt rsi_t_minus_1 (lower_bound ps) \<and> fl_gt rsi_t (lower_bound ps) then \<not> is_long pos
      else fl_gt rsi_t_minus_1 (upper_bound ps) \<and> fl_lt rsi_t (upper_bound ps) \<and> \<not> is_short pos)"

fun order_sizes :: "order list \<Rightarrow> int list" where
  "order_sizes [] = []"
| "order_sizes (Close # os) = order_sizes os"
| "order_sizes (Buy n sl # os) = n # order_sizes os"
| "order_sizes (Sell n sl # os) = n # order_sizes os"

text \<open>The Position Sizer in the words of the specification (section 4.3): the size is the
  floor of the notional over the price and fails with \<open>InvalidSize\<close> when it is not
  positive; the stop distance divides the risked amount by that size. These definitions
  follow the specification, not the code.\<close>

datatype sizer_error = InvalidSize

definition spec_size :: "real \<Rightarrow> real \<Rightarrow> real \<Rightarrow> sizer_error + int" where
  "spec_size e l p = (if \<lfloor>e * l / p\<rfloor> \<le> 0 then Inl InvalidSize else Inr \<lfloor>e * l / p\<rfloor>)"

definition spec_stop_distance :: "real \<Rightarrow> real \<Rightarrow> int \<Rightarrow> real" where
  "spec_stop_distance e r n = (e * r / 100) / of_int n"

definition spec_stop_price_long :: "real \<Rightarrow> real \<Rightarrow> real \<Rightarrow> int \<Rightarrow> real" where
  "spec_stop_price_long e r p n = p - spec_stop_distance e r n"

text \<open>Modelled from the spec: the loss of a position when its stop is filled at the stop
  price, the position having been entered at the price \<open>p\<close> it was sized at (section 4.4,
  step 3: an order executes at the current bar's close). The fill itself is the work of the
  imported engine, which is not part of the repository.\<close>

fun loss_at_stop :: "real \<Rightarrow> order \<Rightarrow> real option" where
  "loss_at_stop p (Buy n (Fin s)) = Some (of_int n * (p - s))"
| "loss_at_stop p (Sell n (Fin s)) = Some (of_int n * (s - p))"
| "loss_at_stop p other = None"

section \<open>Runs: the strategy against an engine\<close>

text \<open>
  Modelled from the spec: the Backtest Engine (section 4.4, steps 2 and 3, and
  \<open>MarginExceeded\<close> of section 7); it is the imported \<^verbatim>\<open>backtesting\<close> library, whose code
  is not part of the repository. The engine keeps the open trades; a close action
  empties them, an open action the engine accepts adds a trade, one it rejects changes
  nothing. Nothing more is assumed of the engine: it has no guard of its own against a
  second trade, it may close the position by itself before a bar (a stop, a margin call),
  and its equity, its prices and what its \<^verbatim>\<open>buy\<close> and \<^verbatim>\<open>sell\<close> raise are arbitrary.
  All of that is the input \<open>bar_event\<close> of a bar.
\<close>

record bar_event =
  ev_engine_closes :: bool
  ev_check :: "order \<Rightarrow> error option"
  ev_equity :: real
  ev_close :: real
  ev_rsi_t :: sample
  ev_rsi_t_minus_1 :: sample
  ev_fills :: bool

definition book_position :: "direction list \<Rightarrow> position" where
  "book_position book = \<lparr>is_long = (Long \<in> set book), is_short = (Short \<in> set book)\<rparr>"

fun execute :: "bool \<Rightarrow> direction list \<Rightarrow> order \<Rightarrow> direction list" where
  "execute fills book Close = []"
| "execute fills book (Buy n sl) = (if fills then book @ [Long] else book)"
| "execute fills book (Sell n sl) = (if fills then book @ [Short] else book)"

text \<open>The books reached after each bar of a run; an exception of \<^verbatim>\<open>next\<close> ends the
  run.\<close>

fun run_trace :: "strategy_params \<Rightarrow> direction list \<Rightarrow> bar_event list \<Rightarrow> direction list list" where
  "run_trace ps book [] = []"
| "run_trace ps book (ev # evs) =
     (let book1 = (if ev_engine_closes ev then [] else book)
      in case RSIStrategy_next (ev_check ev) ps (book_position book1) (ev_equity ev)
                (ev_close ev) (ev_rsi_t ev) (ev_rsi_t_minus_1 ev) of
           Inl e \<Rightarrow> []
         | Inr os \<Rightarrow>
             (let book2 = foldl (execute (ev_fills ev)) book1 os
              in book2 # run_trace ps book2 evs))"

section \<open>The application: \<^verbatim>\<open>BacktestRSIApp\<close>\<close>

text \<open>A row of \<^verbatim>\<open>self.data\<close>: the price columns, and the \<^verbatim>\<open>RSI\<close> column that
  \<^verbatim>\<open>set_parameters\<close> adds.\<close>

record bar =
  bar_Open :: real
  bar_High :: real
  bar_Low :: real
  bar_Close :: real
  bar_RSI :: sample

text \<open>The values of the six sidebar widgets, which \<^verbatim>\<open>set_parameters\<close> stores in the
  application object.\<close>

record app_params =
  app_capital :: real
  app_leverage :: real
  app_risk_percentage :: real
  app_period :: nat
  app_upper_bound :: real
  app_lower_bound :: real

text \<open>The arguments of \<^verbatim>\<open>Backtest(...)\<close> at line 88, with the class attributes of the
  strategy as they stand when the engine runs.\<close>

record backtest_call =
  bt_data :: "bar list"
  bt_strategy :: strategy_params
  bt_cash :: real
  bt_commission :: real
  bt_margin :: real

text \<open>\<^verbatim>\<open>self.data['RSI'] = ...\<close> (line 74). What the imported \<^verbatim>\<open>ta.rsi\<close> returned is
  an input: a series of floats, or \<^verbatim>\<open>None\<close>. A series is aligned on the index, a row
  without a value gets not-a-number; \<^verbatim>\<open>None\<close> is stored in every row.\<close>

fun attach_series :: "bar list \<Rightarrow> fl list \<Rightarrow> bar list" where
  "attach_series [] col = []"
| "attach_series (b # bs) [] = b\<lparr>bar_RSI := Num NaN\<rparr> # attach_series bs []"
| "attach_series (b # bs) (v # vs) = b\<lparr>bar_RSI := Num v\<rparr> # attach_series bs vs"

definition attach_rsi :: "bar list \<Rightarrow> fl list option \<Rightarrow> bar list" where
  "attach_rsi data rsi_col =
     (case rsi_col of
        None \<Rightarrow> map (\<lambda>b. b\<lparr>bar_RSI := PyNone\<rparr>) data
      | Some col \<Rightarrow> attach_series data col)"

text \<open>
  \<^verbatim>\<open>run_backtest\<close> up to the call of the engine (lines 82 to 88). \<open>cls\<close> holds the class
  attributes of \<^verbatim>\<open>RSIStrategy\<close> before the call; the result is the attributes after it
  and the call made, or the \<^verbatim>\<open>ZeroDivisionError\<close> of \<^verbatim>\<open>1/self.leverage\<close>.
\<close>

definition run_backtest ::
  "strategy_params \<Rightarrow> app_params \<Rightarrow> bar list \<Rightarrow> strategy_params \<times> (error + backtest_call)" where
  "run_backtest cls a data =
     (let cls' = cls\<lparr>upper_bound := app_upper_bound a, lower_bound := app_lower_bound a,
                     risk := app_risk_percentage a, leverage := app_leverage a\<rparr>
      in if app_leverage a = 0 then (cls', Inl ZeroDivisionError)
         else (cls', Inr \<lparr>bt_data = data, bt_strategy = cls', bt_cash = app_capital a,
                          bt_commission = 2 / 1000, bt_margin = 1 / app_leverage a\<rparr>))"

text \<open>
  \<^verbatim>\<open>set_parameters\<close> (lines 63 to 78). \<open>rsi_col\<close> is what \<^verbatim>\<open>ta.rsi\<close> returned
  (an imported function) and \<open>button\<close> whether the launch button was pressed. The number
  of bars \<^verbatim>\<open>num_candles\<close> is displayed and not used again. The result is the data with
  its new column, the class attributes, and the call of the engine if one was made.
\<close>

definition set_parameters ::
  "strategy_params \<Rightarrow> app_params \<Rightarrow> bar list \<Rightarrow> fl list option \<Rightarrow> bool \<Rightarrow>
     bar list \<times> strategy_params \<times> (error + backtest_call) option" where
  "set_parameters cls a data rsi_col button =
     (let num_candles = length data;
          data' = attach_rsi data rsi_col
      in if button then
           (let r = run_backtest cls a data' in (data', fst r, Some (snd r)))
         else (data', cls, None))"

section \<open>Evaluating \<^verbatim>\<open>next\<close>\<close>

lemmas next_defs =
  RSIStrategy_next_def buy_call_def sell_call_def place_order_def position_size_def
  stop_loss_long_def stop_loss_short_def truediv_def Let_def

lemma py_and_Inr: "py_and (Inr b) r = (if b then r else Inr False)"
  by (cases b) simp_all

text \<open>With two floats as samples no comparison raises, and \<^verbatim>\<open>next\<close> is the plain
  sequence of its four tests.\<close>

lemma next_num:
  "RSIStrategy_next chk ps pos e p (Num x0) (Num x1) =
     (let closes =
            (if is_long pos \<and> fl_gt x1 (upper_bound ps) \<and> fl_lt x0 (upper_bound ps)
             then [Close] else []) @
            (if is_short pos \<and> fl_lt x1 (lower_bound ps) \<and> fl_gt x0 (lower_bound ps)
             then [Close] else [])
      in if fl_lt x1 (lower_bound ps) \<and> fl_gt x0 (lower_bound ps) then
           (if \<not> is_long pos then
              (case buy_call chk ps e p of Inl err \<Rightarrow> Inl err | Inr b \<Rightarrow> Inr (closes @ [b]))
            else Inr closes)
         else if fl_gt x1 (upper_bound ps) \<and> fl_lt x0 (upper_bound ps) then
           (if \<not> is_short pos then
              (case sell_call chk ps e p of Inl err \<Rightarrow> Inl err | Inr b \<Rightarrow> Inr (closes @ [b]))
            else Inr closes)
         else Inr closes)"
  by (auto simp: RSIStrategy_next_def py_and_Inr Let_def split: sum.splits)

lemma position_size_fin:
  "p \<noteq> 0 \<Longrightarrow> position_size ps e p = Fin (e * leverage ps / p)"
  by (simp add: position_size_def truediv_def)

lemma py_int_position_size_floor:
  assumes "0 < p" and "0 \<le> e * leverage ps"
  shows "py_int (position_size ps e p) = Inr \<lfloor>e * leverage ps / p\<rfloor>"
proof -
  have "0 \<le> e * leverage ps / p" using assms by simp
  then show ?thesis using assms by (simp add: position_size_fin)
qed

lemma stop_loss_long_fin:
  assumes "p \<noteq> 0" and "e * leverage ps \<noteq> 0"
  shows "stop_loss_long ps e p = Fin (p - (e * (risk ps / 100)) / (e * leverage ps / p))"
  using assms by (simp add: stop_loss_long_def position_size_fin truediv_def)

lemma stop_loss_short_fin:
  assumes "p \<noteq> 0" and "e * leverage ps \<noteq> 0"
  shows "stop_loss_short ps e p = Fin ((e * (risk ps / 100)) / (e * leverage ps / p) + p)"
  using assms by (simp add: stop_loss_short_def position_size_fin truediv_def)

text \<open>A call that returns has placed the order with the truncated size and the stop
  computed at lines 125 and 126.\<close>

lemma buy_call_Inr:
  assumes "buy_call chk ps e p = Inr b"
  shows "\<exists>n. py_int (position_size ps e p) = Inr n \<and> b = Buy n (stop_loss_long ps e p)"
  using assms by (auto simp: buy_call_def place_order_def split: sum.splits option.splits)

lemma sell_call_Inr:
  assumes "sell_call chk ps e p = Inr b"
  shows "\<exists>n. py_int (position_size ps e p) = Inr n \<and> b = Sell n (stop_loss_short ps e p)"
  using assms by (auto simp: sell_call_def place_order_def split: sum.splits option.splits)

text \<open>Every order \<^verbatim>\<open>next\<close> places is a close, or opens with the truncated size and the
  stop computed at lines 125 and 126.\<close>

lemma next_orders:
  assumes "RSIStrategy_next chk ps pos e p r0 r1 = Inr os" and "x \<in> set os"
  shows "x = Close \<or>
         (\<exists>n. py_int (position_size ps e p) = Inr n \<and>
            (x = Buy n (stop_loss_long ps e p) \<or> x = Sell n (stop_loss_short ps e p)))"
proof -
  have "x = Close \<or> buy_call chk ps e p = Inr x \<or> sell_call chk ps e p = Inr x"
    using assms
    by (auto simp: RSIStrategy_next_def Let_def split: sum.splits if_splits)
  then show ?thesis
    using buy_call_Inr [of chk ps e p x] sell_call_Inr [of chk ps e p x] by blast
qed

lemma order_sizes_append: "order_sizes (xs @ ys) = order_sizes xs @ order_sizes ys"
  by (induction xs rule: order_sizes.induct) auto

section \<open>Warm-up: undefined indicator values\<close>

text \<open>
  C6, as stated, fails: an undefined indicator value can be \<^verbatim>\<open>None\<close> (the column of a
  series too short for the indicator), and then the step is not a hold: without a position
  the comparison of line 135 raises \<^verbatim>\<open>TypeError\<close>.
\<close>

theorem next_undefined_hold_counterexample:
  "RSIStrategy_next backtesting_size_assertion
     \<lparr>upper_bound = 70, lower_bound = 30, risk = 1, leverage = 1\<rparr>
     \<lparr>is_long = False, is_short = False\<rparr> 5000 100 PyNone PyNone = Inl TypeError"
  by (simp add: RSIStrategy_next_def)

text \<open>
  C6, amended. Whenever \<^verbatim>\<open>self.rsi[-1]\<close> and \<^verbatim>\<open>self.rsi[-2]\<close> are floats and one of
  them is not-a-number, \<^verbatim>\<open>next\<close> places no order and raises nothing, whatever the
  position, the equity, the price, the parameters and the engine's check are: the step is
  a hold. Which bars of the indicator series are undefined is not part of the statement.
\<close>

theorem next_undefined_hold:
  "rsi_t = NaN \<or> rsi_t_minus_1 = NaN \<Longrightarrow>
   RSIStrategy_next chk ps pos equity close_price (Num rsi_t) (Num rsi_t_minus_1) = Inr []"
  by (auto simp: next_num)

theorem next_undefined_hold_witness:
  "(Fin 65 = NaN \<or> NaN = NaN) \<and>
   RSIStrategy_next backtesting_size_assertion
     \<lparr>upper_bound = 70, lower_bound = 30, risk = 1, leverage = 1\<rparr>
     \<lparr>is_long = True, is_short = False\<rparr> 5000 100 (Num (Fin 65)) (Num NaN) = Inr []"
proof -
  have h: "Fin 65 = NaN \<or> NaN = NaN" by simp
  show ?thesis
    using next_undefined_hold
      [OF h, of backtesting_size_assertion
        "\<lparr>upper_bound = 70, lower_bound = 30, risk = 1, leverage = 1\<rparr>"
        "\<lparr>is_long = True, is_short = False\<rparr>" 5000 100]
    by simp
qed

section \<open>The transition rules\<close>

text \<open>
  C1, as the specification words it, fails: with the first match winning, rule 1 ends the
  step of a Long position whose indicator crosses the upper bound downward with the close.
  The code places the close and then the order that opens a Short, in the same call
  (bounds 30 and 70, the indicator going from 75 to 65).
\<close>

theorem next_rules_counterexample:
  "step_actions backtesting_size_assertion
      \<lparr>upper_bound = 70, lower_bound = 30, risk = 1, leverage = 1\<rparr>
      (Some Long) 5000 100 (Num (Fin 65)) (Num (Fin 75)) = Inr [ClosePosition, OpenShort]
   \<and> spec_transition 30 70 (Some Long) 75 65 = ([ClosePosition], None)"
  by (simp add: step_actions_def next_defs position_view_def spec_transition_def)

text \<open>
  C1, amended. With both indicator values defined, a step takes exactly these actions. On
  a downward crossing of the upper bound (\<open>v_prev\<close> above it, \<open>v_now\<close> below it): in state
  Long the position is closed and \<^verbatim>\<open>sell\<close> is called to open a Short in the same step, in
  state Flat \<^verbatim>\<open>sell\<close> is called, in state Short nothing is done. On an upward crossing of
  the lower bound: in state Short the position is closed and \<^verbatim>\<open>buy\<close> is called to open a
  Long in the same step, in state Flat \<^verbatim>\<open>buy\<close> is called, in state Long nothing is done.
  Otherwise nothing is done; in particular a value beyond a bound that has not crossed it
  causes no action. The close rules do not end the step: the open rules are tested after
  them. A call of \<^verbatim>\<open>buy\<close> or \<^verbatim>\<open>sell\<close> that raises ends the step with its exception;
  the state after the step depends on whether the engine fills the order placed.
\<close>

theorem next_rules:
  "step_actions chk ps st equity close_price (Num (Fin v_now)) (Num (Fin v_prev)) =
    (if upper_bound ps < v_prev \<and> v_now < upper_bound ps then
       (case st of
          Some Long \<Rightarrow> if_placed (sell_call chk ps equity close_price) [ClosePosition, OpenShort]
        | None \<Rightarrow> if_placed (sell_call chk ps equity close_price) [OpenShort]
        | Some Short \<Rightarrow> Inr [])
     else if v_prev < lower_bound ps \<and> lower_bound ps < v_now then
       (case st of
          Some Short \<Rightarrow> if_placed (buy_call chk ps equity close_price) [ClosePosition, OpenLong]
        | None \<Rightarrow> if_placed (buy_call chk ps equity close_price) [OpenLong]
        | Some Long \<Rightarrow> Inr [])
     else Inr [])"
proof -
  have b: "\<And>b. buy_call chk ps equity close_price = Inr b \<Longrightarrow> action_of b = OpenLong"
    using buy_call_Inr by fastforce
  have s: "\<And>b. sell_call chk ps equity close_price = Inr b \<Longrightarrow> action_of b = OpenShort"
    using sell_call_Inr by fastforce
  show ?thesis
  proof (cases st)
    case None
    then show ?thesis
      by (auto simp: step_actions_def next_num position_view_def if_placed_def Let_def b s
          split: sum.splits)
  next
    case (Some d)
    then show ?thesis
      by (cases d)
        (auto simp: step_actions_def next_num position_view_def if_placed_def Let_def b s
          split: sum.splits)
  qed
qed

theorem next_rules_witness:
  "step_actions backtesting_size_assertion
      \<lparr>upper_bound = 70, lower_bound = 30, risk = 1, leverage = 1\<rparr>
      (Some Short) 5000 100 (Num (Fin 35)) (Num (Fin 25)) = Inr [ClosePosition, OpenLong]"
  using next_rules [of backtesting_size_assertion
      "\<lparr>upper_bound = 70, lower_bound = 30, risk = 1, leverage = 1\<rparr>"
      "Some Short" 5000 100 35 25]
  by (simp add: if_placed_def buy_call_def place_order_def position_size_def
      stop_loss_long_def truediv_def)

section \<open>The size of an order\<close>

text \<open>
  C2, as stated, fails: with equity 1000, leverage 1 and a price of 2000 the specification's
  sizer fails with \<open>InvalidSize\<close>, the order is skipped, the step is a hold and the run
  continues. The code calls \<^verbatim>\<open>buy\<close> with size 0; the call raises and the run ends.
\<close>

theorem next_order_size_counterexample:
  "RSIStrategy_next backtesting_size_assertion
      \<lparr>upper_bound = 70, lower_bound = 30, risk = 1, leverage = 1\<rparr>
      \<lparr>is_long = False, is_short = False\<rparr> 1000 2000 (Num (Fin 35)) (Num (Fin 25))
     = Inl AssertionError
   \<and> buy_call backtesting_size_assertion
      \<lparr>upper_bound = 70, lower_bound = 30, risk = 1, leverage = 1\<rparr> 1000 2000
     = Inl AssertionError
   \<and> py_int (position_size \<lparr>upper_bound = 70, lower_bound = 30, risk = 1, leverage = 1\<rparr>
        1000 2000) = Inr 0
   \<and> spec_size 1000 1 2000 = Inl InvalidSize"
  by (simp add: next_defs spec_size_def)

text \<open>
  C2, amended. At a positive price, with equity times leverage not negative and two floats
  as indicator values (arithmetic on the reals): a step that does not open places no
  opening order. A step that opens calls \<^verbatim>\<open>buy\<close> or \<^verbatim>\<open>sell\<close> with the size
  floor(equity * leverage / price), whatever that size is: the strategy makes no check of
  it and has no \<open>InvalidSize\<close>; the order is placed if the call returns, and the step
  raises what the call raises otherwise. The size is never negative and is at least 1
  exactly when equity * leverage reaches the price. Below that the size is 0, and with
  the engine's assertion on sizes the step is not a hold: it raises
  \<^verbatim>\<open>AssertionError\<close>, which ends the run.
\<close>

theorem next_order_size:
  assumes "0 < p" and "0 \<le> e * leverage ps"
  shows
    "(\<not> opens ps pos x0 x1 \<longrightarrow>
        (\<exists>cl. RSIStrategy_next chk ps pos e p (Num x0) (Num x1) = Inr cl \<and> order_sizes cl = [])) \<and>
     (opens ps pos x0 x1 \<longrightarrow>
        (\<exists>b cl. (b = Buy \<lfloor>e * leverage ps / p\<rfloor> (stop_loss_long ps e p) \<or>
                  b = Sell \<lfloor>e * leverage ps / p\<rfloor> (stop_loss_short ps e p)) \<and>
                 order_sizes cl = [] \<and>
                 RSIStrategy_next chk ps pos e p (Num x0) (Num x1) =
                   (case chk b of Some err \<Rightarrow> Inl err | None \<Rightarrow> Inr (cl @ [b])))) \<and>
     0 \<le> \<lfloor>e * leverage ps / p\<rfloor> \<and>
     (1 \<le> \<lfloor>e * leverage ps / p\<rfloor>) = (p \<le> e * leverage ps) \<and>
     (opens ps pos x0 x1 \<and> e * leverage ps < p \<longrightarrow>
        RSIStrategy_next backtesting_size_assertion ps pos e p (Num x0) (Num x1) =
          Inl AssertionError)"
proof -
  let ?n = "\<lfloor>e * leverage ps / p\<rfloor>"
  have q: "0 \<le> e * leverage ps / p" using assms by simp
  have a: "(1 \<le> ?n) = (p \<le> e * leverage ps)"
    using assms by (simp add: le_floor_iff pos_le_divide_eq)
  have b: "0 \<le> ?n" using q by simp
  note c = py_int_position_size_floor [OF assms]
  have buy: "buy_call k ps e p =
      (case k (Buy ?n (stop_loss_long ps e p)) of
         Some err \<Rightarrow> Inl err | None \<Rightarrow> Inr (Buy ?n (stop_loss_long ps e p)))" for k
    by (simp add: buy_call_def place_order_def c)
  have sell: "sell_call k ps e p =
      (case k (Sell ?n (stop_loss_short ps e p)) of
         Some err \<Rightarrow> Inl err | None \<Rightarrow> Inr (Sell ?n (stop_loss_short ps e p)))" for k
    by (simp add: sell_call_def place_order_def c)
  have hold: "\<not> opens ps pos x0 x1 \<longrightarrow>
      (\<exists>cl. RSIStrategy_next chk ps pos e p (Num x0) (Num x1) = Inr cl \<and> order_sizes cl = [])"
    by (auto simp: next_num opens_def Let_def)
  have opn: "opens ps pos x0 x1 \<longrightarrow>
      (\<exists>b cl. (b = Buy ?n (stop_loss_long ps e p) \<or> b = Sell ?n (stop_loss_short ps e p)) \<and>
               order_sizes cl = [] \<and>
               RSIStrategy_next chk ps pos e p (Num x0) (Num x1) =
                 (case chk b of Some err \<Rightarrow> Inl err | None \<Rightarrow> Inr (cl @ [b])))"
  proof
    assume o: "opens ps pos x0 x1"
    show "\<exists>b cl. (b = Buy ?n (stop_loss_long ps e p) \<or> b = Sell ?n (stop_loss_short ps e p)) \<and>
               order_sizes cl = [] \<and>
               RSIStrategy_next chk ps pos e p (Num x0) (Num x1) =
                 (case chk b of Some err \<Rightarrow> Inl err | None \<Rightarrow> Inr (cl @ [b]))"
    proof (cases "fl_lt x1 (lower_bound ps) \<and> fl_gt x0 (lower_bound ps)")
      case True
      with o have nl: "\<not> is_long pos" by (simp add: opens_def)
      define cl where "cl =
        (if is_long pos \<and> fl_gt x1 (upper_bound ps) \<and> fl_lt x0 (upper_bound ps)
         then [Close] else []) @
        (if is_short pos \<and> fl_lt x1 (lower_bound ps) \<and> fl_gt x0 (lower_bound ps)
         then [Close] else [])"
      have "order_sizes cl = []" by (simp add: cl_def order_sizes_append)
      moreover have "RSIStrategy_next chk ps pos e p (Num x0) (Num x1) =
          (case chk (Buy ?n (stop_loss_long ps e p)) of
             Some err \<Rightarrow> Inl err | None \<Rightarrow> Inr (cl @ [Buy ?n (stop_loss_long ps e p)]))"
        using True nl by (auto simp: next_num buy cl_def Let_def split: option.splits)
      ultimately show ?thesis by blast
    next
      case False
      with o have d: "fl_gt x1 (upper_bound ps) \<and> fl_lt x0 (upper_bound ps)" "\<not> is_short pos"
        by (simp_all add: opens_def)
      define cl where "cl =
        (if is_long pos \<and> fl_gt x1 (upper_bound ps) \<and> fl_lt x0 (upper_bound ps)
         then [Close] else []) @
        (if is_short pos \<and> fl_lt x1 (lower_bound ps) \<and> fl_gt x0 (lower_bound ps)
         then [Close] else [])"
      have "order_sizes cl = []" by (simp add: cl_def order_sizes_append)
      moreover have "RSIStrategy_next chk ps pos e p (Num x0) (Num x1) =
          (case chk (Sell ?n (stop_loss_short ps e p)) of
             Some err \<Rightarrow> Inl err | None \<Rightarrow> Inr (cl @ [Sell ?n (stop_loss_short ps e p)]))"
        using False d by (auto simp: next_num sell cl_def Let_def split: option.splits)
      ultimately show ?thesis by blast
    qed
  qed
  have abort: "opens ps pos x0 x1 \<and> e * leverage ps < p \<longrightarrow>
      RSIStrategy_next backtesting_size_assertion ps pos e p (Num x0) (Num x1) = Inl AssertionError"
  proof
    assume o: "opens ps pos x0 x1 \<and> e * leverage ps < p"
    then have "\<not> 1 \<le> ?n" using a by simp
    then show "RSIStrategy_next backtesting_size_assertion ps pos e p (Num x0) (Num x1) =
        Inl AssertionError"
      using o by (auto simp: next_num opens_def buy sell Let_def split: if_splits)
  qed
  from hold opn b a abort show ?thesis by blast
qed

theorem next_order_size_witness:
  "RSIStrategy_next backtesting_size_assertion
      \<lparr>upper_bound = 70, lower_bound = 30, risk = 1, leverage = 2\<rparr>
      \<lparr>is_long = False, is_short = False\<rparr> 5000 150 (Num (Fin 35)) (Num (Fin 25))
     = Inr [Buy 66 (Fin (597 / 4))]
   \<and> (1 \<le> \<lfloor>5000 * leverage \<lparr>upper_bound = 70, lower_bound = 30, risk = 1, leverage = 2\<rparr> / 150 :: real\<rfloor>)
   \<and> RSIStrategy_next backtesting_size_assertion
      \<lparr>upper_bound = 70, lower_bound = 30, risk = 1, leverage = 2\<rparr>
      \<lparr>is_long = False, is_short = False\<rparr> 100 300 (Num (Fin 65)) (Num (Fin 75))
     = Inl AssertionError"
proof -
  have h: "(0::real) < 150"
    "0 \<le> 5000 * leverage \<lparr>upper_bound = 70, lower_bound = 30, risk = 1, leverage = 2\<rparr>"
    by simp_all
  have k: "(0::real) < 300"
    "0 \<le> 100 * leverage \<lparr>upper_bound = 70, lower_bound = 30, risk = 1, leverage = 2\<rparr>"
    by simp_all
  show ?thesis
    using next_order_size [OF h, of "\<lparr>is_long = False, is_short = False\<rparr>" "Fin 35" "Fin 25"
        backtesting_size_assertion]
      next_order_size [OF k, of "\<lparr>is_long = False, is_short = False\<rparr>" "Fin 65" "Fin 75"
        backtesting_size_assertion]
    by (simp add: opens_def next_defs)
qed

section \<open>The stop prices\<close>

text \<open>
  C3, as stated, fails: the code divides the risked amount by the size before truncation,
  not by the size of the order. With equity 5000, leverage 1, risk 1 and a price of 150 the
  order has size 33 and the stop 148.5 (a stop distance of 1.5); the stated formula gives
  150 - 50/33.
\<close>

theorem next_stop_prices_counterexample:
  "RSIStrategy_next backtesting_size_assertion \<lparr>upper_bound = 70, lower_bound = 30, risk = 1, leverage = 1\<rparr>
      \<lparr>is_long = False, is_short = False\<rparr> 5000 150 (Num (Fin 35)) (Num (Fin 25)) = Inr [Buy 33 (Fin (297 / 2))]
   \<and> spec_stop_price_long 5000 1 150 33 = 4900 / 33
   \<and> (4900 / 33 :: real) \<noteq> 297 / 2"
  by (simp add: next_defs spec_stop_price_long_def spec_stop_distance_def)

text \<open>
  C3, amended. With a price and an equity times leverage that are not zero, the stop distance
  is (E * R / 100) / (E * L / P), the risked amount over the size before truncation: every
  buy order carries the stop P minus that distance and every sell order P plus it. For
  equity 5000, leverage 1, risk 1 and price 100 the order has size 50 and the stop 99, a
  distance of 1.
\<close>

theorem next_stop_prices:
  assumes "p \<noteq> 0" and "e * leverage ps \<noteq> 0"
    and "RSIStrategy_next chk ps pos e p r0 r1 = Inr os"
  shows "(Buy n s \<in> set os \<longrightarrow> s = Fin (p - (e * (risk ps / 100)) / (e * leverage ps / p))) \<and>
         (Sell n s \<in> set os \<longrightarrow> s = Fin ((e * (risk ps / 100)) / (e * leverage ps / p) + p)) \<and>
         RSIStrategy_next backtesting_size_assertion \<lparr>upper_bound = 70, lower_bound = 30, risk = 1, leverage = 1\<rparr>
           \<lparr>is_long = False, is_short = False\<rparr> 5000 100 (Num (Fin 35)) (Num (Fin 25)) = Inr [Buy 50 (Fin 99)]"
proof -
  have "s = stop_loss_long ps e p" if "Buy n s \<in> set os"
    using next_orders [OF assms(3) that] by auto
  moreover have "s = stop_loss_short ps e p" if "Sell n s \<in> set os"
    using next_orders [OF assms(3) that] by auto
  moreover have
    "RSIStrategy_next backtesting_size_assertion \<lparr>upper_bound = 70, lower_bound = 30, risk = 1, leverage = 1\<rparr>
       \<lparr>is_long = False, is_short = False\<rparr> 5000 100 (Num (Fin 35)) (Num (Fin 25)) = Inr [Buy 50 (Fin 99)]"
    by (simp add: next_defs)
  ultimately show ?thesis
    by (auto simp: stop_loss_long_fin [OF assms(1,2)] stop_loss_short_fin [OF assms(1,2)])
qed

theorem next_stop_prices_witness:
  "Sell 33 (Fin (303 / 2)) \<in> set [Sell 33 (Fin (303 / 2))] \<and>
   RSIStrategy_next backtesting_size_assertion \<lparr>upper_bound = 70, lower_bound = 30, risk = 1, leverage = 1\<rparr>
     \<lparr>is_long = False, is_short = False\<rparr> 5000 150 (Num (Fin 65)) (Num (Fin 75)) = Inr [Sell 33 (Fin (303 / 2))] \<and>
   Fin (303 / 2) = Fin (5000 * (1 / 100) / (5000 * 1 / 150) + 150)"
proof -
  have h: "(150::real) \<noteq> 0"
    "5000 * leverage \<lparr>upper_bound = 70, lower_bound = 30, risk = 1, leverage = 1\<rparr> \<noteq> 0"
    by simp_all
  have r: "RSIStrategy_next backtesting_size_assertion \<lparr>upper_bound = 70, lower_bound = 30, risk = 1, leverage = 1\<rparr>
     \<lparr>is_long = False, is_short = False\<rparr> 5000 150 (Num (Fin 65)) (Num (Fin 75)) = Inr [Sell 33 (Fin (303 / 2))]"
    by (simp add: next_defs)
  show ?thesis
    using next_stop_prices [OF h r, of 33 "Fin (303 / 2)"] r by simp
qed

section \<open>The loss at the stop\<close>

lemma loss_at_stop_next:
  assumes "0 < p" and "0 < e" and "0 < leverage ps"
    and "RSIStrategy_next chk ps pos e p r0 r1 = Inr os" and "x \<in> set os" and "x \<noteq> Close"
  shows "loss_at_stop p x =
           Some (of_int \<lfloor>e * leverage ps / p\<rfloor> * ((e * (risk ps / 100)) / (e * leverage ps / p)))"
proof -
  have nz: "p \<noteq> 0" "e * leverage ps \<noteq> 0" using assms by auto
  have c: "py_int (position_size ps e p) = Inr \<lfloor>e * leverage ps / p\<rfloor>"
    using assms by (intro py_int_position_size_floor) auto
  from next_orders [OF assms(4,5)] assms(6)
  have "x = Buy \<lfloor>e * leverage ps / p\<rfloor> (stop_loss_long ps e p) \<or>
        x = Sell \<lfloor>e * leverage ps / p\<rfloor> (stop_loss_short ps e p)"
    by (auto simp: c)
  then show ?thesis
    by (auto simp: stop_loss_long_fin [OF nz] stop_loss_short_fin [OF nz])
qed

lemma floor_ratio_le:
  fixes q a :: real
  assumes "0 < q" and "0 \<le> a"
  shows "of_int \<lfloor>q\<rfloor> * (a / q) \<le> a"
proof -
  have "of_int \<lfloor>q\<rfloor> * (a / q) \<le> q * (a / q)"
    by (rule mult_right_mono) (use assms in auto)
  also have "q * (a / q) = a" using assms by simp
  finally show ?thesis .
qed

lemma floor_ratio_less:
  fixes q a :: real
  assumes "0 < q" and "0 < a" and "of_int \<lfloor>q\<rfloor> \<noteq> q"
  shows "of_int \<lfloor>q\<rfloor> * (a / q) < a"
proof -
  have "of_int \<lfloor>q\<rfloor> < q" using assms(3) of_int_floor_le [of q] by linarith
  then have "of_int \<lfloor>q\<rfloor> * (a / q) < q * (a / q)"
    by (rule mult_strict_right_mono) (use assms in auto)
  also have "q * (a / q) = a" using assms by simp
  finally show ?thesis .
qed

text \<open>
  C8, as stated, fails: with equity 5000, leverage 1, risk 1 and a price of 150 the order has
  size 33 and the stop 148.5; filled there, the position loses 49.5, not the 50 that are
  one percent of the equity. With leverage 3 the loss is 50: it depends on the leverage.
\<close>

theorem stop_loss_exact_risk_counterexample:
  "RSIStrategy_next backtesting_size_assertion \<lparr>upper_bound = 70, lower_bound = 30, risk = 1, leverage = 1\<rparr>
      \<lparr>is_long = False, is_short = False\<rparr> 5000 150 (Num (Fin 35)) (Num (Fin 25)) = Inr [Buy 33 (Fin (297 / 2))]
   \<and> loss_at_stop 150 (Buy 33 (Fin (297 / 2))) = Some (99 / 2)
   \<and> (99 / 2 :: real) \<noteq> 5000 * (1 / 100)
   \<and> RSIStrategy_next backtesting_size_assertion \<lparr>upper_bound = 70, lower_bound = 30, risk = 1, leverage = 3\<rparr>
      \<lparr>is_long = False, is_short = False\<rparr> 5000 150 (Num (Fin 35)) (Num (Fin 25)) = Inr [Buy 100 (Fin (299 / 2))]
   \<and> loss_at_stop 150 (Buy 100 (Fin (299 / 2))) = Some 50"
  by (simp add: next_defs)

text \<open>
  C8, amended. For positive equity, leverage and price, the loss of an order of \<^verbatim>\<open>next\<close>
  whose stop is filled at the stop price is R percent of the equity multiplied by
  floor(q) / q, where q = equity * leverage / price is the size before truncation. It is
  exactly R percent of the equity when q is a whole number; otherwise it depends on the
  leverage, through q.
\<close>

theorem stop_loss_exact_risk:
  assumes "0 < p" and "0 < e" and "0 < leverage ps"
    and "RSIStrategy_next chk ps pos e p r0 r1 = Inr os" and "x \<in> set os" and "x \<noteq> Close"
  shows "loss_at_stop p x =
           Some (of_int \<lfloor>e * leverage ps / p\<rfloor> / (e * leverage ps / p) * (e * (risk ps / 100))) \<and>
         (of_int \<lfloor>e * leverage ps / p\<rfloor> = e * leverage ps / p \<longrightarrow>
            loss_at_stop p x = Some (e * (risk ps / 100)))"
proof -
  have q: "e * leverage ps / p \<noteq> 0" using assms by simp
  show ?thesis
    using loss_at_stop_next [OF assms] q by (auto simp: field_simps)
qed

theorem stop_loss_exact_risk_witness:
  "RSIStrategy_next backtesting_size_assertion \<lparr>upper_bound = 70, lower_bound = 30, risk = 1, leverage = 1\<rparr>
      \<lparr>is_long = False, is_short = False\<rparr> 5000 100 (Num (Fin 35)) (Num (Fin 25)) = Inr [Buy 50 (Fin 99)]
   \<and> loss_at_stop 100 (Buy 50 (Fin 99)) = Some 50"
proof -
  have h: "(0::real) < 100" "(0::real) < 5000"
    "0 < leverage \<lparr>upper_bound = 70, lower_bound = 30, risk = 1, leverage = 1\<rparr>"
    by simp_all
  have r: "RSIStrategy_next backtesting_size_assertion \<lparr>upper_bound = 70, lower_bound = 30, risk = 1, leverage = 1\<rparr>
      \<lparr>is_long = False, is_short = False\<rparr> 5000 100 (Num (Fin 35)) (Num (Fin 25)) = Inr [Buy 50 (Fin 99)]"
    by (simp add: next_defs)
  have m: "Buy 50 (Fin 99) \<in> set [Buy 50 (Fin 99)]" "Buy 50 (Fin 99) \<noteq> Close"
    by simp_all
  show ?thesis
    using stop_loss_exact_risk [OF h r m] r by simp
qed

text \<open>
  C10. For positive equity, leverage, risk and price, the loss of an order of \<^verbatim>\<open>next\<close>
  whose stop is filled at the stop price is at most R percent of the equity, and strictly
  less whenever the truncation of the size discards a fraction of a unit.
\<close>

theorem stop_loss_at_most_risk:
  assumes "0 < p" and "0 < e" and "0 < leverage ps" and "0 < risk ps"
    and "RSIStrategy_next chk ps pos e p r0 r1 = Inr os" and "x \<in> set os" and "x \<noteq> Close"
  shows "\<exists>l. loss_at_stop p x = Some l \<and> l \<le> e * (risk ps / 100) \<and>
           (of_int \<lfloor>e * leverage ps / p\<rfloor> \<noteq> e * leverage ps / p \<longrightarrow> l < e * (risk ps / 100))"
proof -
  have q: "0 < e * leverage ps / p" using assms by simp
  have a: "0 < e * (risk ps / 100)" using assms by simp
  show ?thesis
    using loss_at_stop_next [OF assms(1,2,3,5,6,7)] floor_ratio_le [OF q less_imp_le [OF a]]
      floor_ratio_less [OF q a]
    by auto
qed

theorem stop_loss_at_most_risk_witness:
  "RSIStrategy_next backtesting_size_assertion \<lparr>upper_bound = 70, lower_bound = 30, risk = 1, leverage = 1\<rparr>
      \<lparr>is_long = False, is_short = False\<rparr> 5000 150 (Num (Fin 65)) (Num (Fin 75)) = Inr [Sell 33 (Fin (303 / 2))]
   \<and> (\<exists>l. loss_at_stop 150 (Sell 33 (Fin (303 / 2))) = Some l \<and> l < 50)"
proof -
  have h: "(0::real) < 150" "(0::real) < 5000"
    "0 < leverage \<lparr>upper_bound = 70, lower_bound = 30, risk = 1, leverage = 1\<rparr>"
    "0 < risk \<lparr>upper_bound = 70, lower_bound = 30, risk = 1, leverage = 1\<rparr>"
    by simp_all
  have r: "RSIStrategy_next backtesting_size_assertion \<lparr>upper_bound = 70, lower_bound = 30, risk = 1, leverage = 1\<rparr>
      \<lparr>is_long = False, is_short = False\<rparr> 5000 150 (Num (Fin 65)) (Num (Fin 75)) = Inr [Sell 33 (Fin (303 / 2))]"
    by (simp add: next_defs)
  have m: "Sell 33 (Fin (303 / 2)) \<in> set [Sell 33 (Fin (303 / 2))]"
    "Sell 33 (Fin (303 / 2)) \<noteq> Close"
    by simp_all
  show ?thesis
    using stop_loss_at_most_risk [OF h r m] r by auto
qed

section \<open>At most one open position\<close>

lemma execute_orders_one:
  assumes "length book \<le> 1"
    and "RSIStrategy_next chk ps (book_position book) e p r0 r1 = Inr os"
  shows "length (foldl (execute fills) book os) \<le> 1"
proof -
  have B: "\<And>b. buy_call chk ps e p = Inr b \<Longrightarrow> \<exists>n s. b = Buy n s"
    using buy_call_Inr by blast
  have S: "\<And>b. sell_call chk ps e p = Inr b \<Longrightarrow> \<exists>n s. b = Sell n s"
    using sell_call_Inr by blast
  show ?thesis
  proof (cases book)
    case Nil
    with assms(2) show ?thesis
      by (auto simp: RSIStrategy_next_def Let_def book_position_def
          split: if_splits sum.splits dest!: B S)
  next
    case (Cons d ds)
    with assms(1) have book: "book = [d]" by simp
    show ?thesis
    proof (cases d)
      case Long
      with book assms(2) show ?thesis
        by (auto simp: RSIStrategy_next_def Let_def book_position_def py_and_Inr
            split: if_splits sum.splits dest!: B S)
    next
      case Short
      with book assms(2) show ?thesis
        by (auto simp: RSIStrategy_next_def Let_def book_position_def py_and_Inr
            split: if_splits sum.splits dest!: B S)
    qed
  qed
qed

lemma run_trace_one:
  "length book \<le> 1 \<Longrightarrow> b \<in> set (run_trace ps book evs) \<Longrightarrow> length b \<le> 1"
proof (induction evs arbitrary: book)
  case Nil
  then show ?case by simp
next
  case (Cons ev evs)
  define book1 where "book1 = (if ev_engine_closes ev then [] else book)"
  have one: "length book1 \<le> 1" using Cons.prems(1) by (simp add: book1_def)
  show ?case
  proof (cases "RSIStrategy_next (ev_check ev) ps (book_position book1) (ev_equity ev)
      (ev_close ev) (ev_rsi_t ev) (ev_rsi_t_minus_1 ev)")
    case (Inl e)
    with Cons.prems(2) show ?thesis by (simp add: book1_def)
  next
    case (Inr os)
    define book2 where "book2 = foldl (execute (ev_fills ev)) book1 os"
    have two: "length book2 \<le> 1"
      unfolding book2_def by (rule execute_orders_one [OF one Inr])
    from Cons.prems(2) Inr have "b = book2 \<or> b \<in> set (run_trace ps book2 evs)"
      by (simp add: book1_def book2_def Let_def)
    then show ?thesis using two Cons.IH [OF two] by blast
  qed
qed

text \<open>
  C7. In every run that starts without a position, whatever the engine's equity, prices,
  indicator values, exceptions at a call, rejections and closes of its own are, the book reached after each
  bar holds at most one open trade, and so never a long and a short trade together.
\<close>

theorem one_position_invariant:
  assumes "b \<in> set (run_trace ps [] evs)"
  shows "length b \<le> 1 \<and> \<not> (is_long (book_position b) \<and> is_short (book_position b))"
proof -
  have one: "length b \<le> 1" using run_trace_one [OF _ assms] by simp
  then have "b = [] \<or> (\<exists>d. b = [d])" by (cases b) auto
  then have "\<not> (Long \<in> set b \<and> Short \<in> set b)" by auto
  with one show ?thesis by (simp add: book_position_def)
qed

theorem one_position_invariant_witness:
  "[Short] \<in> set (run_trace \<lparr>upper_bound = 70, lower_bound = 30, risk = 1, leverage = 1\<rparr> []
      [\<lparr>ev_engine_closes = False, ev_check = backtesting_size_assertion, ev_equity = 5000, ev_close = 100, ev_rsi_t = Num (Fin 35),
         ev_rsi_t_minus_1 = Num (Fin 25), ev_fills = True\<rparr>,
       \<lparr>ev_engine_closes = False, ev_check = backtesting_size_assertion, ev_equity = 5000, ev_close = 100, ev_rsi_t = Num (Fin 65),
         ev_rsi_t_minus_1 = Num (Fin 75), ev_fills = True\<rparr>])
   \<and> length [Short] \<le> 1
   \<and> \<not> (is_long (book_position [Short]) \<and> is_short (book_position [Short]))"
proof -
  have h: "[Short] \<in> set (run_trace \<lparr>upper_bound = 70, lower_bound = 30, risk = 1, leverage = 1\<rparr> []
      [\<lparr>ev_engine_closes = False, ev_check = backtesting_size_assertion, ev_equity = 5000, ev_close = 100, ev_rsi_t = Num (Fin 35),
         ev_rsi_t_minus_1 = Num (Fin 25), ev_fills = True\<rparr>,
       \<lparr>ev_engine_closes = False, ev_check = backtesting_size_assertion, ev_equity = 5000, ev_close = 100, ev_rsi_t = Num (Fin 65),
         ev_rsi_t_minus_1 = Num (Fin 75), ev_fills = True\<rparr>])"
    by (simp add: next_defs book_position_def)
  show ?thesis
    using one_position_invariant [OF h] h by simp
qed

section \<open>Launching a run\<close>

lemma length_attach_series: "length (attach_series data col) = length data"
  by (induction data col rule: attach_series.induct) auto

lemma length_attach_rsi: "length (attach_rsi data rsi_col) = length data"
  by (cases rsi_col) (simp_all add: attach_rsi_def length_attach_series)

text \<open>
  C5, as stated, fails: with three bars and a period of 14 (3 < 14 + 2), no series from
  the indicator function and the launch button pressed, \<^verbatim>\<open>set_parameters\<close> does not
  abort: it calls the engine on the three bars.
\<close>

theorem set_parameters_short_series_counterexample:
  "length [\<lparr>bar_Open = 1, bar_High = 1, bar_Low = 1, bar_Close = 1, bar_RSI = PyNone\<rparr>,
           \<lparr>bar_Open = 1, bar_High = 2, bar_Low = 1, bar_Close = 2, bar_RSI = PyNone\<rparr>,
           \<lparr>bar_Open = 2, bar_High = 3, bar_Low = 2, bar_Close = 3, bar_RSI = PyNone\<rparr>]
     < app_period \<lparr>app_capital = 5000, app_leverage = 1, app_risk_percentage = 1,
         app_period = 14, app_upper_bound = 70, app_lower_bound = 30\<rparr> + 2
   \<and> snd (snd (set_parameters \<lparr>upper_bound = 70, lower_bound = 30, risk = 1, leverage = 1\<rparr>
        \<lparr>app_capital = 5000, app_leverage = 1, app_risk_percentage = 1,
          app_period = 14, app_upper_bound = 70, app_lower_bound = 30\<rparr>
        [\<lparr>bar_Open = 1, bar_High = 1, bar_Low = 1, bar_Close = 1, bar_RSI = PyNone\<rparr>,
         \<lparr>bar_Open = 1, bar_High = 2, bar_Low = 1, bar_Close = 2, bar_RSI = PyNone\<rparr>,
         \<lparr>bar_Open = 2, bar_High = 3, bar_Low = 2, bar_Close = 3, bar_RSI = PyNone\<rparr>]
        None True))
     = Some (Inr \<lparr>bt_data =
          [\<lparr>bar_Open = 1, bar_High = 1, bar_Low = 1, bar_Close = 1, bar_RSI = PyNone\<rparr>,
           \<lparr>bar_Open = 1, bar_High = 2, bar_Low = 1, bar_Close = 2, bar_RSI = PyNone\<rparr>,
           \<lparr>bar_Open = 2, bar_High = 3, bar_Low = 2, bar_Close = 3, bar_RSI = PyNone\<rparr>],
          bt_strategy = \<lparr>upper_bound = 70, lower_bound = 30, risk = 1, leverage = 1\<rparr>,
          bt_cash = 5000, bt_commission = 2 / 1000, bt_margin = 1\<rparr>)"
  by (simp add: set_parameters_def run_backtest_def attach_rsi_def Let_def)

text \<open>
  C5, amended. The application makes no check of the number of bars: for every price
  series, of any length, and a leverage that is not zero, pressing the launch button
  calls the engine on the whole series with its RSI column; the source has no
  \<open>InsufficientData\<close> failure.
\<close>

theorem set_parameters_no_length_check:
  assumes "app_leverage a \<noteq> 0"
  shows "snd (snd (set_parameters cls a data rsi_col True)) =
           Some (Inr \<lparr>bt_data = attach_rsi data rsi_col,
                  bt_strategy = cls\<lparr>upper_bound := app_upper_bound a,
                    lower_bound := app_lower_bound a, risk := app_risk_percentage a,
                    leverage := app_leverage a\<rparr>,
                  bt_cash = app_capital a, bt_commission = 2 / 1000,
                  bt_margin = 1 / app_leverage a\<rparr>) \<and>
         length (attach_rsi data rsi_col) = length data"
  using assms by (simp add: set_parameters_def run_backtest_def Let_def length_attach_rsi)

theorem set_parameters_no_length_check_witness:
  "snd (snd (set_parameters \<lparr>upper_bound = 70, lower_bound = 30, risk = 1, leverage = 1\<rparr>
        \<lparr>app_capital = 5000, app_leverage = 2, app_risk_percentage = 1,
          app_period = 14, app_upper_bound = 80, app_lower_bound = 20\<rparr>
        [\<lparr>bar_Open = 1, bar_High = 1, bar_Low = 1, bar_Close = 1, bar_RSI = PyNone\<rparr>]
        (Some [Fin 50]) True))
     = Some (Inr \<lparr>bt_data =
          [\<lparr>bar_Open = 1, bar_High = 1, bar_Low = 1, bar_Close = 1, bar_RSI = Num (Fin 50)\<rparr>],
          bt_strategy = \<lparr>upper_bound = 80, lower_bound = 20, risk = 1, leverage = 2\<rparr>,
          bt_cash = 5000, bt_commission = 2 / 1000, bt_margin = 1 / 2\<rparr>)"
proof -
  have h: "app_leverage \<lparr>app_capital = 5000, app_leverage = 2, app_risk_percentage = 1,
          app_period = 14, app_upper_bound = 80, app_lower_bound = 20\<rparr> \<noteq> 0"
    by simp
  show ?thesis
    using set_parameters_no_length_check [OF h,
        of "\<lparr>upper_bound = 70, lower_bound = 30, risk = 1, leverage = 1\<rparr>"
          "[\<lparr>bar_Open = 1, bar_High = 1, bar_Low = 1, bar_Close = 1, bar_RSI = PyNone\<rparr>]"
          "Some [Fin 50]"]
    by (simp add: attach_rsi_def)
qed

end
